theory Spec2Isabelle
  imports Complex_Main "HOL-Library.Word" "HOL-Library.Signed_Division"
begin

section \<open>cava_filter: frame scheduling and sample accounting\<close>

text \<open>
  A shallow embedding of \<^verbatim>\<open>src/cava_filter.cpp\<close>. The C++ \<^verbatim>\<open>double\<close> values
  (frame rate, samples per frame, the accumulated sample fractions, the bar values) are
  modelled as exact reals, and \<^verbatim>\<open>int\<close> and \<^verbatim>\<open>size_t\<close> values as unbounded
  integers: rounding of the floating-point operations and overflow of the integer ones are
  outside the model. The sample buffers have no bound in the model either: a read length
  above the block size is a number like any other here, and a write past the buffer in
  C++. On every concrete configuration evaluated below the values are small and the
  rounding of the C++ arithmetic changes none of the integers computed from them.
\<close>

subsection \<open>Run configuration (the fields of class CavaFilter)\<close>

record config =
  rate :: int
  channels :: int
  framerate :: real
  bars_per_channel :: int
  channels_out :: int

definition input_len_per_channel :: int where
  "input_len_per_channel = 4096"

text \<open>The checks of \<^verbatim>\<open>process_command_line\<close> on the options -R, -C, -f, -b and -S.\<close>

definition valid_config :: "config \<Rightarrow> bool" where
  "valid_config cfg \<longleftrightarrow>
     1 \<le> rate cfg \<and> (channels cfg = 1 \<or> channels cfg = 2) \<and> 0 < framerate cfg"

definition valid_bars :: "config \<Rightarrow> bool" where
  "valid_bars cfg \<longleftrightarrow>
     2 \<le> bars_per_channel cfg \<and> bars_per_channel cfg \<le> 200 \<and>
     (channels_out cfg = 1 \<or> channels_out cfg = 2)"

subsection \<open>Conversions of the language\<close>

text \<open>Conversion of a double to int: the fractional part is discarded (towards zero).\<close>

definition to_int :: "real \<Rightarrow> int" where
  "to_int x = (if 0 \<le> x then \<lfloor>x\<rfloor> else \<lceil>x\<rceil>)"

text \<open>\<^verbatim>\<open>bool is_odd(int num) { return num % 2; }\<close> with the truncating remainder of C++.\<close>

definition is_odd :: "int \<Rightarrow> bool" where
  "is_odd num = (num smod 2 \<noteq> 0)"

subsection \<open>The frame exec plan (computed once before the loop)\<close>

definition input_len :: "config \<Rightarrow> int" where
  "input_len cfg = input_len_per_channel * channels cfg"

definition bars_total :: "config \<Rightarrow> int" where
  "bars_total cfg = bars_per_channel cfg * channels cfg"

definition samples_per_frame :: "config \<Rightarrow> real" where
  "samples_per_frame cfg = real_of_int (rate cfg * channels cfg) / framerate cfg"

definition execs_per_frame :: "config \<Rightarrow> int" where
  "execs_per_frame cfg =
     \<lceil>(samples_per_frame cfg + real_of_int (channels cfg)) / real_of_int (input_len cfg)\<rceil>"

definition samples_per_exec :: "config \<Rightarrow> int" where
  "samples_per_exec cfg =
     to_int (samples_per_frame cfg / real_of_int (execs_per_frame cfg))"

definition samples_remainder :: "config \<Rightarrow> int" where
  "samples_remainder cfg =
     to_int (samples_per_frame cfg
             - real_of_int (execs_per_frame cfg * samples_per_exec cfg))"

text \<open>\<^verbatim>\<open>modf(samples_per_frame, &intpart)\<close>: the fractional part, with the sign of the argument.\<close>

definition sample_fraction_per_frame :: "config \<Rightarrow> real" where
  "sample_fraction_per_frame cfg =
     samples_per_frame cfg - real_of_int (to_int (samples_per_frame cfg))"

subsection \<open>The read length of one exec\<close>

text \<open>
  The body of the for loop up to the call of fread, in its three stages. The state is the
  pair of \<^verbatim>\<open>read_len\<close> and \<^verbatim>\<open>current_accumulated_sample_fractions\<close>.
\<close>

definition base_read_len :: "config \<Rightarrow> int \<Rightarrow> int" where
  "base_read_len cfg read_idx =
     samples_per_exec cfg + (if read_idx < samples_remainder cfg then 1 else 0)"

definition parity_offset :: "int \<Rightarrow> int" where
  "parity_offset read_idx = (if is_odd read_idx then - 1 else 1)"

definition parity_correct :: "config \<Rightarrow> int \<Rightarrow> int \<times> real \<Rightarrow> int \<times> real" where
  "parity_correct cfg read_idx s =
     (case s of (read_len, acc) \<Rightarrow>
        if channels cfg = 2 \<and> is_odd read_len
        then (read_len + parity_offset read_idx, acc - real_of_int (parity_offset read_idx))
        else (read_len, acc))"

definition carry_inject :: "config \<Rightarrow> int \<Rightarrow> int \<times> real \<Rightarrow> int \<times> real" where
  "carry_inject cfg read_idx s =
     (case s of (read_len, acc) \<Rightarrow>
        if read_idx = execs_per_frame cfg - 1
        then (let acc1 = acc + sample_fraction_per_frame cfg
              in if real_of_int (channels cfg) \<le> acc1
                 then (read_len + channels cfg, acc1 - real_of_int (channels cfg))
                 else (read_len, acc1))
        else (read_len, acc))"

definition resolve_read_len :: "config \<Rightarrow> int \<Rightarrow> real \<Rightarrow> int \<times> real" where
  "resolve_read_len cfg read_idx acc =
     carry_inject cfg read_idx (parity_correct cfg read_idx (base_read_len cfg read_idx, acc))"

subsection \<open>The input stream\<close>

text \<open>
  The input is a stream of 16-bit signed samples. \<open>pending\<close> holds the samples that the
  stream can still deliver (finitely many: an input that never ends is not modelled),
  \<open>fails\<close> tells whether running out of them is a read error
  (rather than the end of the file), and \<open>error_ind\<close> is the error indicator that
  \<^verbatim>\<open>ferror\<close> reads. \<^verbatim>\<open>fread\<close> delivers whole samples only.
\<close>

record in_stream =
  pending :: "16 word list"
  fails :: bool
  error_ind :: bool

definition fread :: "nat \<Rightarrow> in_stream \<Rightarrow> 16 word list \<times> in_stream" where
  "fread n f =
     (if n \<le> length (pending f)
      then (take n (pending f), f\<lparr>pending := drop n (pending f)\<rparr>)
      else (pending f, f\<lparr>pending := [], error_ind := error_ind f \<or> fails f\<rparr>))"

definition ferror :: "in_stream \<Rightarrow> bool" where
  "ferror f = error_ind f"

subsection \<open>Printing one line of bar values\<close>

text \<open>
  \<^verbatim>\<open>frame_bars[i]\<close> on a \<^verbatim>\<open>std::vector\<close>: a read outside the vector is undefined
  behaviour, which the model reports as \<open>None\<close>.
\<close>

definition bar_at :: "real list \<Rightarrow> int \<Rightarrow> real option" where
  "bar_at frame_bars i =
     (if 0 \<le> i \<and> i < int (length frame_bars) then Some (frame_bars ! nat i) else None)"

text \<open>The indices of \<^verbatim>\<open>frame_bars\<close> that iteration \<open>i\<close> of the printing loop reads.\<close>

definition bar_indices :: "config \<Rightarrow> int \<Rightarrow> int list" where
  "bar_indices cfg i =
     (if channels_out cfg = 2 then [i] else [i, i + bars_per_channel cfg])"

definition bar_ht :: "config \<Rightarrow> real list \<Rightarrow> int \<Rightarrow> real option" where
  "bar_ht cfg frame_bars i =
     (if channels_out cfg = 2 then bar_at frame_bars i
      else (case (bar_at frame_bars i, bar_at frame_bars (i + bars_per_channel cfg)) of
              (Some l, Some r) \<Rightarrow> Some ((l + r) / 2)
            | _ \<Rightarrow> None))"

definition num_bars_out :: "config \<Rightarrow> int" where
  "num_bars_out cfg = bars_per_channel cfg * channels_out cfg"

text \<open>The integers of one output line, each printed with \<^verbatim>\<open>"%4d "\<close> after a cast to int.\<close>

definition print_freq_vals_line :: "config \<Rightarrow> real list \<Rightarrow> int list option" where
  "print_freq_vals_line cfg frame_bars =
     those (map (\<lambda>i. map_option to_int (bar_ht cfg frame_bars (int i)))
                [0..<nat (num_bars_out cfg)])"

text \<open>All the indices that one call reads, in the order of the reads.\<close>

definition indices_read :: "config \<Rightarrow> int list" where
  "indices_read cfg = concat (map (\<lambda>i. bar_indices cfg (int i)) [0..<nat (num_bars_out cfg)])"

subsection \<open>The read, analyse and accumulate loop\<close>

text \<open>
  What a run does to the outside, in order: an \<open>Exec n out\<close> is an fread that delivered
  all \<open>n\<close> requested samples, followed by the call of the engine on them, which returned
  the bar values \<open>out\<close>; a \<open>Short req got err\<close> is an fread that delivered \<open>got\<close>
  samples where \<open>req\<close> were requested, \<open>err\<close> being what ferror says after it; a
  \<open>Line l\<close> is a call of \<^verbatim>\<open>print_freq_vals_line\<close>.
\<close>

datatype event =
    Exec nat "real list"
  | Short nat nat bool
  | Line "int list option"

text \<open>
  The variables of \<^verbatim>\<open>generate_spectrum_file\<close> that live across iterations. The engine
  (cavacore) is a parameter: \<open>cava_execute samples plan\<close> returns the value of every bar
  and the engine's new state.
\<close>

record 'p run_state =
  in_file :: in_stream
  acc_fractions :: real
  cava_plan :: 'p
  stat_error :: bool
  events :: "event list"

type_synonym 'p engine = "real list \<Rightarrow> 'p \<Rightarrow> (nat \<Rightarrow> real) \<times> 'p"

text \<open>\<^verbatim>\<open>frame_bars[bar_idx] += cava_out[bar_idx] / execs_per_frame\<close> for every bar.\<close>

definition add_weighted :: "config \<Rightarrow> real list \<Rightarrow> real list \<Rightarrow> real list" where
  "add_weighted cfg cava_out frame_bars =
     map (\<lambda>bar_idx. frame_bars ! bar_idx
                     + cava_out ! bar_idx / real_of_int (execs_per_frame cfg))
         [0..<nat (bars_total cfg)]"

text \<open>One iteration of the for loop: \<open>Inl\<close> is the \<^verbatim>\<open>break\<close> after a short read.\<close>

definition exec_once ::
  "config \<Rightarrow> 'p engine \<Rightarrow> int \<Rightarrow> 'p run_state \<times> real list
   \<Rightarrow> 'p run_state + 'p run_state \<times> real list" where
  "exec_once cfg cava_execute read_idx s =
     (case s of (st, frame_bars) \<Rightarrow>
      (case resolve_read_len cfg read_idx (acc_fractions st) of (read_len, acc) \<Rightarrow>
      (case fread (nat read_len) (in_file st) of (buf, f) \<Rightarrow>
        if length buf < nat read_len
        then Inl (st\<lparr>in_file := f, acc_fractions := acc,
                      stat_error := stat_error st \<or> ferror f,
                      events := events st @ [Short (nat read_len) (length buf) (ferror f)]\<rparr>)
        else (case cava_execute (map (\<lambda>x. real_of_int (sint x)) buf) (cava_plan st) of
                (out, plan) \<Rightarrow>
                  let cava_out = map out [0..<nat (bars_total cfg)]
                  in Inr (st\<lparr>in_file := f, acc_fractions := acc, cava_plan := plan,
                              events := events st @ [Exec (nat read_len) cava_out]\<rparr>,
                          add_weighted cfg cava_out frame_bars)))))"

fun run_execs ::
  "config \<Rightarrow> 'p engine \<Rightarrow> int list \<Rightarrow> 'p run_state \<times> real list
   \<Rightarrow> 'p run_state + 'p run_state \<times> real list" where
  "run_execs cfg cava_execute [] s = Inr s"
| "run_execs cfg cava_execute (read_idx # rest) s =
     (case exec_once cfg cava_execute read_idx s of
        Inl st \<Rightarrow> Inl st
      | Inr s' \<Rightarrow> run_execs cfg cava_execute rest s')"

text \<open>The body of the while loop up to the test of \<^verbatim>\<open>finished\<close>.\<close>

definition run_frame ::
  "config \<Rightarrow> 'p engine \<Rightarrow> 'p run_state \<Rightarrow> 'p run_state + 'p run_state \<times> real list" where
  "run_frame cfg cava_execute st =
     run_execs cfg cava_execute (map int [0..<nat (execs_per_frame cfg)])
       (st, replicate (nat (bars_total cfg)) 0)"

text \<open>
  The while loop. It runs for as long as the stream delivers, so the model takes a bound
  on the number of frames and answers \<open>None\<close> when the bound is reached.
\<close>

fun frames_loop ::
  "nat \<Rightarrow> config \<Rightarrow> 'p engine \<Rightarrow> 'p run_state \<Rightarrow> 'p run_state option" where
  "frames_loop 0 cfg cava_execute st = None"
| "frames_loop (Suc n) cfg cava_execute st =
     (case run_frame cfg cava_execute st of
        Inl st' \<Rightarrow> Some st'
      | Inr (st', frame_bars) \<Rightarrow>
          frames_loop n cfg cava_execute
            (st'\<lparr>events := events st' @ [Line (print_freq_vals_line cfg frame_bars)]\<rparr>))"

text \<open>
  \<^verbatim>\<open>generate_spectrum_file\<close>, from the engine state that \<^verbatim>\<open>cava_init\<close> returned. The
  optional header line of band frequencies is printed before the loop and is left out.
  The returned Status is the field \<open>stat_error\<close> of the final state.
\<close>

definition generate_spectrum_file ::
  "nat \<Rightarrow> config \<Rightarrow> 'p engine \<Rightarrow> 'p \<Rightarrow> in_stream \<Rightarrow> 'p run_state option" where
  "generate_spectrum_file n cfg cava_execute plan f =
     frames_loop n cfg cava_execute
       \<lparr>in_file = f, acc_fractions = 0, cava_plan = plan, stat_error = False, events = []\<rparr>"

subsection \<open>The shape of a finished run\<close>

text \<open>
  \<open>run_shape E j tr\<close> reads a trace from a point where \<open>j\<close> execs of the current frame
  are done: reads happen only while fewer than \<open>E\<close> execs are done, a line comes exactly
  after \<open>E\<close> of them, and the trace ends with its first short read.
\<close>

fun run_shape :: "nat \<Rightarrow> nat \<Rightarrow> event list \<Rightarrow> bool" where
  "run_shape E j [] = False"
| "run_shape E j (Exec n out # tr) = (j < E \<and> run_shape E (Suc j) tr)"
| "run_shape E j (Short req got err # tr) = (j < E \<and> got < req \<and> tr = [])"
| "run_shape E j (Line l # tr) = (j = E \<and> run_shape E 0 tr)"

subsection \<open>Concrete configurations\<close>

text \<open>Two execs per frame, both of the odd base length 8191.\<close>

definition cfg_two_execs :: config where
  "cfg_two_execs =
     \<lparr>rate = 16382, channels = 2, framerate = 2, bars_per_channel = 2, channels_out = 1\<rparr>"

text \<open>Mono input, and stereo input with two bars per channel (mixed and stereo output).\<close>

definition cfg_mono :: config where
  "cfg_mono =
     \<lparr>rate = 44100, channels = 1, framerate = 25, bars_per_channel = 2, channels_out = 1\<rparr>"



text \<open>
  Stereo at 24 frames per second (3675 samples per frame, an odd number), and a stereo
  configuration of five execs per frame with half a sample left over per frame.
\<close>

definition cfg_24fps :: config where
  "cfg_24fps =
     \<lparr>rate = 44100, channels = 2, framerate = 24, bars_per_channel = 2, channels_out = 1\<rparr>"

definition cfg_overrun :: config where
  "cfg_overrun =
     \<lparr>rate = 81913, channels = 2, framerate = 4, bars_per_channel = 2, channels_out = 1\<rparr>"

text \<open>An engine that answers 0 for every bar, and a stream of \<open>n\<close> samples of silence.\<close>

definition silent_engine :: "unit engine" where
  "silent_engine samples plan = (\<lambda>bar_idx. 0, plan)"

definition silence :: "nat \<Rightarrow> in_stream" where
  "silence n = \<lparr>pending = replicate n 0, fails = False, error_ind = False\<rparr>"



subsection \<open>Reading a trace\<close>

fun is_exec :: "event \<Rightarrow> bool" where
  "is_exec (Exec n out) = True"
| "is_exec ev = False"


text \<open>The number of samples that the fread of an event asked for.\<close>

fun requested :: "event \<Rightarrow> nat" where
  "requested (Exec n out) = n"
| "requested (Short req got err) = req"
| "requested (Line l) = 0"


subsection \<open>Sample accounting\<close>




section \<open>Properties\<close>

lemma is_odd_iff: "is_odd n \<longleftrightarrow> odd n"
  unfolding is_odd_def smod_int_alt_def by (simp add: sgn_if) presburger

text \<open>
  C4 (stereo pairing). With two channels, whatever the exec index and the accumulated
  fraction are, the read length that the resolver hands to fread is even.
\<close>

theorem stereo_read_len_even:
  "channels cfg = 2 \<Longrightarrow> even (fst (resolve_read_len cfg read_idx acc))"
  by (auto simp: resolve_read_len_def carry_inject_def parity_correct_def parity_offset_def
      is_odd_iff Let_def)

subsection \<open>The plan\<close>

lemmas plan_defs = execs_per_frame_def samples_per_exec_def samples_remainder_def
  sample_fraction_per_frame_def samples_per_frame_def input_len_def input_len_per_channel_def
  to_int_def









subsection \<open>The parity correction\<close>

lemma base_odd_same_side:
  assumes "is_odd (base_read_len cfg i)" "is_odd (base_read_len cfg j)"
  shows "i < samples_remainder cfg \<longleftrightarrow> j < samples_remainder cfg"
  using assms by (auto simp: base_read_len_def is_odd_iff split: if_splits)

text \<open>
  C10 (self-balancing parity correction). With two channels, an odd read length is
  moved by +1 at an even exec index and by -1 at an odd one, and the same amount is
  subtracted from the accumulated fractions. Two odd base lengths of a frame with no odd
  one between them sit at neighbouring exec indices, so their two adjustments cancel.
\<close>

theorem parity_correction_self_balancing:
  assumes c: "channels cfg = 2"
  shows "(is_odd read_len \<longrightarrow>
            parity_correct cfg read_idx (read_len, acc) =
              (read_len + (if even read_idx then 1 else - 1),
               acc - (if even read_idx then 1 else - 1)))
       \<and> (is_odd (base_read_len cfg i) \<and> is_odd (base_read_len cfg j) \<and> i < j
            \<and> (\<forall>k. i < k \<and> k < j \<longrightarrow> \<not> is_odd (base_read_len cfg k))
          \<longrightarrow> j = i + 1 \<and> parity_offset i + parity_offset j = 0)"
proof (intro conjI impI)
  assume "is_odd read_len"
  then show "parity_correct cfg read_idx (read_len, acc) =
              (read_len + (if even read_idx then 1 else - 1),
               acc - (if even read_idx then 1 else - 1))"
    using c by (simp add: parity_correct_def parity_offset_def is_odd_iff)
next
  assume h: "is_odd (base_read_len cfg i) \<and> is_odd (base_read_len cfg j) \<and> i < j
            \<and> (\<forall>k. i < k \<and> k < j \<longrightarrow> \<not> is_odd (base_read_len cfg k))"
  show "j = i + 1"
  proof (rule ccontr)
    assume "j \<noteq> i + 1"
    with h have between: "i < i + 1" "i + 1 < j" by auto
    have side: "i < samples_remainder cfg \<longleftrightarrow> j < samples_remainder cfg"
      using h base_odd_same_side by blast
    have "i + 1 < samples_remainder cfg \<longleftrightarrow> i < samples_remainder cfg"
      using side between by auto
    then have "base_read_len cfg (i + 1) = base_read_len cfg i"
      by (simp add: base_read_len_def)
    then have "is_odd (base_read_len cfg (i + 1))" using h by simp
    moreover have "\<not> is_odd (base_read_len cfg (i + 1))" using h between by blast
    ultimately show False by simp
  qed
  then show "parity_offset i + parity_offset j = 0"
    by (simp add: parity_offset_def is_odd_iff)
qed

lemma two_execs_plan:
  "execs_per_frame cfg_two_execs = 2" "samples_per_exec cfg_two_execs = 8191"
  "samples_remainder cfg_two_execs = 0"
  by (simp_all add: cfg_two_execs_def plan_defs)

theorem parity_correction_self_balancing_witness:
  "channels cfg_two_execs = 2 \<and> is_odd 8191 \<and>
   parity_correct cfg_two_execs 0 (8191, 0) = (8192, - 1) \<and>
   is_odd (base_read_len cfg_two_execs 0) \<and> is_odd (base_read_len cfg_two_execs 1) \<and>
   (0::int) < 1 \<and> parity_offset 0 + parity_offset 1 = 0"
proof -
  have c: "channels cfg_two_execs = 2" by (simp add: cfg_two_execs_def)
  have o: "is_odd 8191" by (simp add: is_odd_iff)
  have b: "is_odd (base_read_len cfg_two_execs 0)" "is_odd (base_read_len cfg_two_execs 1)"
    by (simp_all add: base_read_len_def two_execs_plan is_odd_iff)
  have n: "\<forall>k. (0::int) < k \<and> k < 1 \<longrightarrow> \<not> is_odd (base_read_len cfg_two_execs k)"
    by auto
  show ?thesis
    using parity_correction_self_balancing [OF c, of 8191 0 0 0 1] c o b n by simp
qed

subsection \<open>Printing\<close>




lemma up4: "[0..<4] = [0, 1, 2, Suc 2]" "[0..<2] = [0, 1]"
  by (simp_all add: upt_rec)


text \<open>
  C3 (indices of the accumulator). With one input channel the accumulator has
  \<open>bars_per_channel\<close> entries, and the printing loop of the default output mode reads up
  to index \<open>2 * bars_per_channel - 1\<close>: here indices 2 and 3 of an accumulator of length 2.
\<close>

theorem mono_input_reads_outside_accumulator:
  "valid_config cfg_mono \<and> valid_bars cfg_mono
   \<and> bars_total cfg_mono = 2
   \<and> indices_read cfg_mono = [0, 2, 1, 3]
   \<and> 2 \<in> set (indices_read cfg_mono) \<and> bars_total cfg_mono \<le> 2
   \<and> print_freq_vals_line cfg_mono (replicate (nat (bars_total cfg_mono)) 0) = None"
  by (simp add: cfg_mono_def valid_config_def valid_bars_def bars_total_def indices_read_def
      bar_indices_def num_bars_out_def up4 print_freq_vals_line_def bar_ht_def bar_at_def)

subsection \<open>Runs on silence\<close>

lemma plan_24fps:
  "execs_per_frame cfg_24fps = 1" "samples_per_exec cfg_24fps = 3675"
  "samples_remainder cfg_24fps = 0" "sample_fraction_per_frame cfg_24fps = 0"
  "samples_per_frame cfg_24fps = 3675" "bars_total cfg_24fps = 4"
  by (simp_all add: cfg_24fps_def plan_defs bars_total_def)

lemma resolve_24fps: "acc < 3 \<Longrightarrow> resolve_read_len cfg_24fps 0 acc = (3676, acc - 1)"
  by (simp add: resolve_read_len_def carry_inject_def parity_correct_def parity_offset_def
      base_read_len_def plan_24fps is_odd_iff) (simp add: cfg_24fps_def)

lemma frame_24fps:
  "3676 \<le> n \<Longrightarrow> a < 3 \<Longrightarrow> run_frame cfg_24fps silent_engine
     \<lparr>in_file = silence n, acc_fractions = a, cava_plan = (), stat_error = False, events = evs\<rparr>
   = Inr (\<lparr>in_file = silence (n - 3676), acc_fractions = a - 1, cava_plan = (), stat_error = False,
           events = evs @ [Exec 3676 [0, 0, 0, 0]]\<rparr>, [0, 0, 0, 0])"
  by (simp add: run_frame_def plan_24fps exec_once_def resolve_24fps fread_def silence_def
      silent_engine_def add_weighted_def up4)

lemma frame_24fps_short:
  "n < 3676 \<Longrightarrow> a < 3 \<Longrightarrow> run_frame cfg_24fps silent_engine
     \<lparr>in_file = silence n, acc_fractions = a, cava_plan = (), stat_error = False, events = evs\<rparr>
   = Inl (\<lparr>in_file = silence 0, acc_fractions = a - 1, cava_plan = (), stat_error = False,
           events = evs @ [Short 3676 n False]\<rparr>)"
  by (simp add: run_frame_def plan_24fps exec_once_def resolve_24fps fread_def silence_def
      silent_engine_def add_weighted_def up4 ferror_def)

lemma line_24fps: "print_freq_vals_line cfg_24fps [0, 0, 0, 0] = Some [0, 0]"
  by (simp add: print_freq_vals_line_def num_bars_out_def bar_ht_def bar_at_def cfg_24fps_def up4 to_int_def)

lemma frames_24fps:
  "a < 3 \<Longrightarrow>
   frames_loop (Suc K) cfg_24fps silent_engine
     \<lparr>in_file = silence (3676 * K), acc_fractions = a, cava_plan = (), stat_error = False,
        events = evs\<rparr>
   = Some \<lparr>in_file = silence 0, acc_fractions = a - real (Suc K), cava_plan = (),
           stat_error = False,
           events = evs @ concat (replicate K [Exec 3676 [0, 0, 0, 0], Line (Some [0, 0])])
                    @ [Short 3676 0 False]\<rparr>"
proof (induction K arbitrary: a evs)
  case 0
  then show ?case by (simp add: frame_24fps_short)
next
  case (Suc K)
  have n: "3676 \<le> 3676 * Suc K" by simp
  have a: "a - 1 < 3" using Suc.prems by simp
  have d: "3676 * Suc K - 3676 = 3676 * K" by simp
  show ?case
    using Suc.IH [OF a, of "evs @ [Exec 3676 [0, 0, 0, 0], Line (Some [0, 0])]"]
    by (simp add: frame_24fps [OF n Suc.prems] d line_24fps del: mult_Suc_right)
qed

lemma requested_24fps:
  "(\<Sum>ev\<leftarrow>concat (replicate K [Exec 3676 [0, 0, 0, 0], Line (Some [0, 0])]). requested ev)
   = 3676 * K"
  by (induction K) simp_all

text \<open>
  C1 (no drift). At 44100 Hz, stereo, 24 frames per second a frame has 3675 samples. The
  single exec of every frame has the odd length 3675 at exec index 0, so it reads 3676
  samples and books -1 into the accumulated fractions, which the carry never pays back:
  it only fires when the accumulator reaches \<open>channels\<close>. On a stream that holds them,
  the first \<open>K\<close> frames complete and request \<open>3676 * K\<close> samples, \<open>K\<close> more than
  \<open>K * samples_per_frame\<close>.
\<close>

theorem drift_at_24fps:
  "valid_config cfg_24fps
   \<and> generate_spectrum_file (Suc K) cfg_24fps silent_engine () (silence (3676 * K))
     = Some \<lparr>in_file = silence 0, acc_fractions = - real (Suc K), cava_plan = (),
             stat_error = False,
             events = concat (replicate K [Exec 3676 [0, 0, 0, 0], Line (Some [0, 0])])
                      @ [Short 3676 0 False]\<rparr>
   \<and> int (\<Sum>ev\<leftarrow>concat (replicate K [Exec 3676 [0, 0, 0, 0], Line (Some [0, 0])]).
             requested ev)
     = \<lfloor>real K * samples_per_frame cfg_24fps\<rfloor> + int K"
proof -
  have v: "valid_config cfg_24fps" by (simp add: valid_config_def cfg_24fps_def)
  have "(0::real) < 3" by simp
  from frames_24fps [OF this, of K "[]"]
  have run: "generate_spectrum_file (Suc K) cfg_24fps silent_engine () (silence (3676 * K))
     = Some \<lparr>in_file = silence 0, acc_fractions = - real (Suc K), cava_plan = (),
             stat_error = False,
             events = concat (replicate K [Exec 3676 [0, 0, 0, 0], Line (Some [0, 0])])
                      @ [Short 3676 0 False]\<rparr>"
    by (simp add: generate_spectrum_file_def)
  have "real K * 3675 = real_of_int (int K * 3675)" by simp
  then have "\<lfloor>real K * samples_per_frame cfg_24fps\<rfloor> = int K * 3675"
    unfolding plan_24fps by (simp only: floor_of_int)
  then show ?thesis using v run by (simp add: requested_24fps)
qed

lemma plan_overrun:
  "execs_per_frame cfg_overrun = 5" "samples_per_exec cfg_overrun = 8191"
  "samples_remainder cfg_overrun = 1" "sample_fraction_per_frame cfg_overrun = 1 / 2"
  "bars_total cfg_overrun = 4" "input_len cfg_overrun = 8192" "channels cfg_overrun = 2"
  by (simp_all add: cfg_overrun_def plan_defs bars_total_def)

lemma idx5: "map int [0..<5] = [0, 1, 2, 3, 4]"
  by (simp add: upt_rec)

lemma resolve_overrun:
  "resolve_read_len cfg_overrun 0 a = (8192, a)"
  "resolve_read_len cfg_overrun 1 a = (8190, a + 1)"
  "resolve_read_len cfg_overrun 2 a = (8192, a - 1)"
  "resolve_read_len cfg_overrun 3 a = (8190, a + 1)"
  "resolve_read_len cfg_overrun 4 a =
     (if 5 / 2 \<le> a then (8194, a - 5 / 2) else (8192, a - 1 / 2))"
  by (simp_all add: resolve_read_len_def carry_inject_def parity_correct_def parity_offset_def
      base_read_len_def plan_overrun is_odd_iff Let_def)

lemma exec_overrun:
  "nat (fst (resolve_read_len cfg_overrun i a)) \<le> n \<Longrightarrow>
   exec_once cfg_overrun silent_engine i
     (\<lparr>in_file = silence n, acc_fractions = a, cava_plan = (), stat_error = False, events = evs\<rparr>,
      [0, 0, 0, 0])
   = Inr (\<lparr>in_file = silence (n - nat (fst (resolve_read_len cfg_overrun i a))),
            acc_fractions = snd (resolve_read_len cfg_overrun i a), cava_plan = (),
            stat_error = False,
            events = evs @ [Exec (nat (fst (resolve_read_len cfg_overrun i a))) [0, 0, 0, 0]]\<rparr>,
          [0, 0, 0, 0])"
  by (cases "resolve_read_len cfg_overrun i a")
    (simp add: exec_once_def fread_def silence_def silent_engine_def add_weighted_def up4
      plan_overrun)

lemma rep4: "replicate 4 x = [x, x, x, x]"
  by (simp add: eval_nat_numeral)

lemma frame_overrun:
  "40958 \<le> n \<Longrightarrow> run_frame cfg_overrun silent_engine
     \<lparr>in_file = silence n, acc_fractions = a, cava_plan = (), stat_error = False, events = evs\<rparr>
   = Inr (\<lparr>in_file = silence (n - (if 3 / 2 \<le> a then 40958 else 40956)),
            acc_fractions = (if 3 / 2 \<le> a then a - 3 / 2 else a + 1 / 2), cava_plan = (),
            stat_error = False,
            events = evs @ [Exec 8192 [0, 0, 0, 0], Exec 8190 [0, 0, 0, 0], Exec 8192 [0, 0, 0, 0],
                            Exec 8190 [0, 0, 0, 0],
                            Exec (if 3 / 2 \<le> a then 8194 else 8192) [0, 0, 0, 0]]\<rparr>,
          [0, 0, 0, 0])"
  by (simp add: run_frame_def plan_overrun idx5 exec_overrun resolve_overrun rep4)

lemma frame_overrun_short:
  "run_frame cfg_overrun silent_engine
     \<lparr>in_file = silence 0, acc_fractions = a, cava_plan = (), stat_error = False, events = evs\<rparr>
   = Inl (\<lparr>in_file = silence 0, acc_fractions = a, cava_plan = (), stat_error = False,
           events = evs @ [Short 8192 0 False]\<rparr>)"
  by (simp add: run_frame_def plan_overrun idx5 exec_once_def resolve_overrun fread_def
      silence_def ferror_def rep4)

lemma line_overrun: "print_freq_vals_line cfg_overrun [0, 0, 0, 0] = Some [0, 0]"
  by (simp add: print_freq_vals_line_def num_bars_out_def bar_ht_def bar_at_def cfg_overrun_def
      up4 to_int_def)

text \<open>
  C2 (read length within the block). At 81913 Hz, stereo, 4 frames per second a frame
  has 40956.5 samples in five execs of base length 8191 (the first one 8192). The last
  exec has an odd length at an even index and is rounded up to the block size 8192; in
  the fourth frame the accumulated halves reach 2 and the carry adds two more samples:
  the read length is 8194 for a buffer of 8192 samples.
\<close>

theorem read_len_exceeds_buffer:
  "valid_config cfg_overrun \<and> input_len cfg_overrun = 8192 \<and>
   (\<exists>st. generate_spectrum_file 5 cfg_overrun silent_engine () (silence 163826) = Some st
     \<and> drop 18 (events st) =
         [Exec 8192 [0, 0, 0, 0], Exec 8190 [0, 0, 0, 0], Exec 8192 [0, 0, 0, 0],
          Exec 8190 [0, 0, 0, 0], Exec 8194 [0, 0, 0, 0], Line (Some [0, 0]),
          Short 8192 0 False])"
proof -
  have five: "(5::nat) = Suc (Suc (Suc (Suc (Suc 0))))" by simp
  have v: "valid_config cfg_overrun" by (simp add: valid_config_def cfg_overrun_def)
  show ?thesis
    unfolding generate_spectrum_file_def five
    by (simp add: frame_overrun frame_overrun_short line_overrun plan_overrun v)
qed

subsection \<open>The trace of a run\<close>

lemma exec_once_Inr:
  assumes "exec_once cfg eng i (st, fb) = Inr (st', fb')"
  shows "\<exists>n out. events st' = events st @ [Exec n out] \<and> length out = nat (bars_total cfg)
           \<and> fb' = add_weighted cfg out fb \<and> stat_error st' = stat_error st"
  using assms
  by (auto simp: exec_once_def Let_def split: prod.splits if_splits)

lemma exec_once_Inl:
  assumes "exec_once cfg eng i (st, fb) = Inl st'"
  shows "\<exists>r g e. events st' = events st @ [Short r g e] \<and> g < r
           \<and> stat_error st' = (stat_error st \<or> e)"
  using assms
  by (auto simp: exec_once_def Let_def split: prod.splits if_splits)

lemma run_execs_Inr:
  "run_execs cfg eng idxs (st, fb) = Inr (st', fb') \<Longrightarrow>
   \<exists>xs. events st' = events st @ xs \<and> length xs = length idxs \<and> (\<forall>ev \<in> set xs. is_exec ev)
        \<and> stat_error st' = stat_error st"
proof (induction idxs arbitrary: st fb)
  case Nil
  then show ?case by simp
next
  case (Cons i idxs)
  from Cons.prems obtain st1 fb1 where
    one: "exec_once cfg eng i (st, fb) = Inr (st1, fb1)"
    and rest: "run_execs cfg eng idxs (st1, fb1) = Inr (st', fb')"
    by (auto split: sum.splits)
  from exec_once_Inr [OF one] obtain n out where
    e1: "events st1 = events st @ [Exec n out]" and s1: "stat_error st1 = stat_error st"
    by blast
  from Cons.IH [OF rest] obtain xs where
    xs: "events st' = events st1 @ xs" "length xs = length idxs" "\<forall>ev \<in> set xs. is_exec ev"
      "stat_error st' = stat_error st1"
    by blast
  show ?case
    by (rule exI [of _ "Exec n out # xs"]) (simp add: xs e1 s1)
qed

lemma run_execs_Inl:
  "run_execs cfg eng idxs (st, fb) = Inl st' \<Longrightarrow>
   \<exists>xs r g e. events st' = events st @ xs @ [Short r g e] \<and> length xs < length idxs
        \<and> (\<forall>ev \<in> set xs. is_exec ev) \<and> g < r \<and> stat_error st' = (stat_error st \<or> e)"
proof (induction idxs arbitrary: st fb)
  case Nil
  then show ?case by simp
next
  case (Cons i idxs)
  show ?case
  proof (cases "exec_once cfg eng i (st, fb)")
    case (Inl st1)
    with Cons.prems have "st1 = st'" by simp
    with Inl exec_once_Inl [of cfg eng i st fb st'] obtain r g e where
      "events st' = events st @ [Short r g e]" "g < r" "stat_error st' = (stat_error st \<or> e)"
      by blast
    then show ?thesis
      by (intro exI [of _ "[]"] exI [of _ r] exI [of _ g] exI [of _ e]) simp
  next
    case (Inr s1)
    obtain st1 fb1 where s1: "s1 = (st1, fb1)" by (cases s1)
    with Inr Cons.prems have rest: "run_execs cfg eng idxs (st1, fb1) = Inl st'" by simp
    from exec_once_Inr [of cfg eng i st fb st1 fb1] Inr s1 obtain n out where
      e1: "events st1 = events st @ [Exec n out]" and se: "stat_error st1 = stat_error st"
      by auto
    from Cons.IH [OF rest] obtain xs r g e where
      xs: "events st' = events st1 @ xs @ [Short r g e]" "length xs < length idxs"
        "\<forall>ev \<in> set xs. is_exec ev" "g < r" "stat_error st' = (stat_error st1 \<or> e)"
      by blast
    show ?thesis
      by (intro exI [of _ "Exec n out # xs"] exI [of _ r] exI [of _ g] exI [of _ e])
        (simp add: xs e1 se)
  qed
qed

lemma run_shape_execs:
  "\<forall>ev \<in> set xs. is_exec ev \<Longrightarrow> j + length xs \<le> E \<Longrightarrow>
   run_shape E j (xs @ tr) = run_shape E (j + length xs) tr"
proof (induction xs arbitrary: j)
  case Nil
  then show ?case by simp
next
  case (Cons ev xs)
  then obtain n out where "ev = Exec n out" by (cases ev) auto
  with Cons show ?case by simp
qed

lemma frames_loop_shape:
  "frames_loop n cfg eng st = Some st' \<Longrightarrow>
   \<exists>tr. events st' = events st @ tr \<and> run_shape (nat (execs_per_frame cfg)) 0 tr"
proof (induction n arbitrary: st)
  case 0
  then show ?case by simp
next
  case (Suc n)
  let ?E = "nat (execs_per_frame cfg)"
  show ?case
  proof (cases "run_frame cfg eng st")
    case (Inl st1)
    with Suc.prems have eq: "st1 = st'" by simp
    from Inl eq have "run_execs cfg eng (map int [0..<?E]) (st, replicate (nat (bars_total cfg)) 0) = Inl st'"
      by (simp add: run_frame_def)
    from run_execs_Inl [OF this] obtain xs r g e where
      xs: "events st' = events st @ xs @ [Short r g e]" "length xs < ?E"
        "\<forall>ev \<in> set xs. is_exec ev" "g < r"
      by auto
    have "run_shape ?E 0 (xs @ [Short r g e])"
      using xs run_shape_execs [of xs 0 ?E "[Short r g e]"] by simp
    with xs(1) show ?thesis by blast
  next
    case (Inr s1)
    obtain st1 fb1 where s1: "s1 = (st1, fb1)" by (cases s1)
    let ?l = "Line (print_freq_vals_line cfg fb1)"
    let ?st2 = "st1\<lparr>events := events st1 @ [?l]\<rparr>"
    from Inr s1 Suc.prems have rest: "frames_loop n cfg eng ?st2 = Some st'" by simp
    from Inr s1 have "run_execs cfg eng (map int [0..<?E]) (st, replicate (nat (bars_total cfg)) 0) = Inr (st1, fb1)"
      by (simp add: run_frame_def)
    from run_execs_Inr [OF this] obtain xs where
      xs: "events st1 = events st @ xs" "length xs = ?E" "\<forall>ev \<in> set xs. is_exec ev"
      by auto
    from Suc.IH [OF rest] obtain tr where
      tr: "events st' = events ?st2 @ tr" "run_shape ?E 0 tr"
      by blast
    have "run_shape ?E 0 (xs @ ?l # tr)"
      using xs tr(2) run_shape_execs [of xs 0 ?E "?l # tr"] by simp
    moreover have "events st' = events st @ xs @ ?l # tr"
      using tr(1) xs(1) by simp
    ultimately show ?thesis by blast
  qed
qed

text \<open>
  C7 (partial frames are suppressed). In every run that returns, whatever the stream and
  the configuration, the trace has the shape that \<open>run_shape\<close> reads: a line is printed
  exactly after \<open>execs_per_frame\<close> reads of a frame were all delivered in full, so the
  lines of the completed frames come first and in order, and the trace ends with a short
  read inside a frame, with no line for that frame.
\<close>

theorem partial_frame_suppression:
  assumes "generate_spectrum_file n cfg eng plan f = Some st"
  shows "run_shape (nat (execs_per_frame cfg)) 0 (events st)"
proof -
  from assms frames_loop_shape [of n cfg eng _ st] obtain tr where
    "events st = [] @ tr" "run_shape (nat (execs_per_frame cfg)) 0 tr"
    unfolding generate_spectrum_file_def by fastforce
  then show ?thesis by simp
qed

subsection \<open>The frame accumulator\<close>





subsection \<open>The balance of samples\<close>

























subsection \<open>How a run ends\<close>






lemma run_24fps:
  "generate_spectrum_file 3 cfg_24fps silent_engine () (silence 7352)
   = Some \<lparr>in_file = silence 0, acc_fractions = - 3, cava_plan = (), stat_error = False,
           events = [Exec 3676 [0, 0, 0, 0], Line (Some [0, 0]),
                     Exec 3676 [0, 0, 0, 0], Line (Some [0, 0]), Short 3676 0 False]\<rparr>"
  by (simp add: generate_spectrum_file_def numeral_3_eq_3 frame_24fps frame_24fps_short
      line_24fps)


theorem partial_frame_suppression_witness:
  "generate_spectrum_file 3 cfg_24fps silent_engine () (silence 7352)
   = Some \<lparr>in_file = silence 0, acc_fractions = - 3, cava_plan = (), stat_error = False,
           events = [Exec 3676 [0, 0, 0, 0], Line (Some [0, 0]),
                     Exec 3676 [0, 0, 0, 0], Line (Some [0, 0]), Short 3676 0 False]\<rparr>
   \<and> run_shape (nat (execs_per_frame cfg_24fps)) 0
        [Exec 3676 [0, 0, 0, 0], Line (Some [0, 0]),
         Exec 3676 [0, 0, 0, 0], Line (Some [0, 0]), Short 3676 0 False]"
  using partial_frame_suppression [OF run_24fps] run_24fps by simp






subsection \<open>The plan and the read lengths on concrete configurations\<close>

theorem stereo_read_len_even_witness:
  "channels cfg_24fps = 2 \<and> resolve_read_len cfg_24fps 0 0 = (3676, - 1)
   \<and> even (fst (resolve_read_len cfg_24fps 0 0))"
proof -
  have c: "channels cfg_24fps = 2" by (simp add: cfg_24fps_def)
  show ?thesis using stereo_read_len_even [OF c, of 0 0] c by (simp add: resolve_24fps)
qed


end
